theory Spec2Isabelle
  imports Main
begin

section \<open>Python values\<close>

text \<open>
  The claims of a token, the header of a token and the key-set document are JSON data
  decoded into Python objects.  Numbers are restricted to integers (no operation of the
  backend computes with a number).  A dictionary is an association list in which the first
  binding of a key is the one in effect.  Text and bytes are both \<open>string\<close>.
\<close>

datatype pyval =
    PNone
  | PBool bool
  | PInt int
  | PStr string
  | PList "pyval list"
  | PDict "(string \<times> pyval) list"

type_synonym pydict = "(string \<times> pyval) list"

text \<open>Truth value of an object, as \<open>not x\<close> and \<open>if x\<close> test it.\<close>

fun truthy :: "pyval \<Rightarrow> bool" where
  "truthy PNone = False"
| "truthy (PBool b) = b"
| "truthy (PInt n) = (n \<noteq> 0)"
| "truthy (PStr s) = (s \<noteq> [])"
| "truthy (PList xs) = (xs \<noteq> [])"
| "truthy (PDict d) = (d \<noteq> [])"

text \<open>
  The operator \<open>==\<close>: a bool equals the integer 0 or 1, lists are compared element by
  element, dictionaries key by key; objects of different kinds are unequal.
\<close>

fun py_eq :: "pyval \<Rightarrow> pyval \<Rightarrow> bool"
  and py_eq_list :: "pyval list \<Rightarrow> pyval list \<Rightarrow> bool"
  and py_eq_items :: "(string \<times> pyval) list \<Rightarrow> (string \<times> pyval) list \<Rightarrow> bool"
  and py_eq_item :: "string \<Rightarrow> pyval \<Rightarrow> (string \<times> pyval) list \<Rightarrow> bool"
where
  "py_eq PNone PNone = True"
| "py_eq (PBool a) (PBool b) = (a = b)"
| "py_eq (PBool a) (PInt n) = ((if a then 1 else 0) = n)"
| "py_eq (PInt n) (PBool a) = (n = (if a then 1 else 0))"
| "py_eq (PInt m) (PInt n) = (m = n)"
| "py_eq (PStr s) (PStr t) = (s = t)"
| "py_eq (PList xs) (PList ys) = py_eq_list xs ys"
| "py_eq (PDict d) (PDict e) =
     (length (remdups (map fst d)) = length (remdups (map fst e)) \<and> py_eq_items d e)"
| "py_eq _ _ = False"
| "py_eq_list [] [] = True"
| "py_eq_list (x # xs) (y # ys) = (py_eq x y \<and> py_eq_list xs ys)"
| "py_eq_list _ _ = False"
| "py_eq_items [] e = True"
| "py_eq_items ((k, v) # d) e = (py_eq_item k v e \<and> py_eq_items d e)"
| "py_eq_item k v [] = False"
| "py_eq_item k v ((k', v') # e) = (if k = k' then py_eq v v' else py_eq_item k v e)"

text \<open>\<open>d.get(k)\<close>: the value under the key, \<open>None\<close> when the key is missing.\<close>

definition dict_get :: "pydict \<Rightarrow> string \<Rightarrow> pyval" where
  "dict_get d k = (case map_of d k of None \<Rightarrow> PNone | Some v \<Rightarrow> v)"

section \<open>Errors\<close>

text \<open>The exceptions of the PyJWT library; all of them derive from \<open>PyJWTError\<close>.\<close>

datatype pyjwt_error =
    DecodeError
  | InvalidSignatureError
  | ExpiredSignatureError
  | InvalidIssuedAtError
  | InvalidIssuerError
  | MissingRequiredClaimError
  | InvalidAlgorithmError
  | InvalidKeyError

text \<open>
  A message is the text of an f-string: literal text, and the places where a value is
  formatted into it (an object, or the bytes of the expected scheme).
\<close>

datatype part = Lit string | Fmt pyval | FmtBytes string

type_synonym message = "part list"

datatype error =
    AuthenticationFailed message
  | PyJWTError pyjwt_error
  | RequestException
  | HTTPError nat
  | JSONDecodeError
  | Exception string
  | KeyError string
  | TypeError
  | ValueError

text \<open>\<open>v[k]\<close> with a text key, and the elements that \<open>for x in v\<close> visits.\<close>

fun py_getitem :: "pyval \<Rightarrow> string \<Rightarrow> error + pyval" where
  "py_getitem (PDict d) k = (case map_of d k of None \<Rightarrow> Inl (KeyError k) | Some v \<Rightarrow> Inr v)"
| "py_getitem _ k = Inl TypeError"

fun py_iter :: "pyval \<Rightarrow> error + pyval list" where
  "py_iter (PList xs) = Inr xs"
| "py_iter (PDict d) = Inr (map PStr (remdups (map fst d)))"
| "py_iter (PStr s) = Inr (map (\<lambda>c. PStr [c]) s)"
| "py_iter _ = Inl TypeError"

section \<open>Collaborators\<close>

text \<open>
  A user as the backend reads it: \<open>id\<close>, \<open>is_active\<close>, \<open>is_admin\<close> and the optional
  \<open>impersonated_user\<close>.  An API key record owns a user.
\<close>

datatype user =
  User (user_id: int) (is_active: bool) (is_admin: bool) (impersonated_user: "user option")

datatype api_key = APIKey (key_user: user)

text \<open>The request: the bytes of its Authorization header, if it has one.\<close>

record request =
  HTTP_AUTHORIZATION :: "string option"

record settings =
  COGNITO_USER_POOL_URL :: string
  COGNITO_USER_LOGIN_CLIENT_ID :: string

record jwt_options =
  verify_signature :: bool
  verify_exp :: bool
  verify_iat :: bool
  verify_aud :: bool
  verify_iss :: bool
  require_exp :: bool

definition JWT_VERIFY_OPTS :: jwt_options where
  "JWT_VERIFY_OPTS = \<lparr>verify_signature = True, verify_exp = True, verify_iat = True,
     verify_aud = False, verify_iss = True, require_exp = True\<rparr>"

datatype rsa_key = RSAPublicKey int int

text \<open>The answer of the identity provider to a GET: a status and, if it parses, a JSON body.\<close>

record http_response =
  status_code :: nat
  json :: "pyval option"

text \<open>
  What the backend is configured with and the libraries it calls: the settings, PyJWT
  (\<open>get_unverified_header\<close>, \<open>RSAAlgorithm.from_jwk\<close>, \<open>decode\<close> with the key, the
  issuer, the algorithms and the options) and the identity provider behind
  \<open>requests.get\<close> (the answer to the n-th request for a URL; \<open>None\<close> when the
  connection fails).  \<open>from_jwk\<close> may raise any exception: \<open>InvalidKeyError\<close>, which
  is a \<open>PyJWTError\<close>, but also \<open>ValueError\<close> or \<open>TypeError\<close> for a key whose
  numbers cannot be read.
\<close>

record environment =
  settings :: settings
  get_unverified_header :: "string \<Rightarrow> pyjwt_error + pydict"
  from_jwk :: "pyval \<Rightarrow> error + rsa_key"
  decode :: "string \<Rightarrow> rsa_key \<Rightarrow> string \<Rightarrow> string list \<Rightarrow> jwt_options \<Rightarrow> pyjwt_error + pydict"
  requests_get :: "nat \<Rightarrow> string \<Rightarrow> http_response option"

text \<open>
  The state the backend reads and writes: the module variable
  \<open>__COGNITO_USER_POOL_JWKS\<close>, the shared cache, the requests sent to the identity
  provider, the log, the \<open>user_logged_in\<close> signals sent, and the two tables.
\<close>

record world =
  COGNITO_USER_POOL_JWKS :: pyval
  cache :: "string \<rightharpoonup> pyval"
  http_requests :: "string list"
  log :: "string list"
  signals :: "user list"
  users :: "pyval \<rightharpoonup> user"
  api_keys :: "pyval \<rightharpoonup> api_key"

section \<open>The key store\<close>

definition cache_get :: "world \<Rightarrow> string \<Rightarrow> pyval" where
  "cache_get s k = (case cache s k of None \<Rightarrow> PNone | Some v \<Rightarrow> v)"

definition get_jwks :: "environment \<Rightarrow> world \<Rightarrow> (error + pyval) \<times> world" where
  "get_jwks env s =
    (if \<not> truthy (COGNITO_USER_POOL_JWKS s) then
       (let cached_val = cache_get s ''cognito_user_pool_jwks'';
            r = (if cached_val \<noteq> PNone then Inr (s\<lparr>COGNITO_USER_POOL_JWKS := cached_val\<rparr>)
                 else
                   (let url = COGNITO_USER_POOL_URL (settings env) @ ''/.well-known/jwks.json'';
                        s1 = s\<lparr>http_requests := http_requests s @ [url]\<rparr>
                    in case requests_get env (length (http_requests s)) url of
                         None \<Rightarrow> Inl (RequestException, s1)
                       | Some res \<Rightarrow>
                           if 400 \<le> status_code res \<and> status_code res < 600
                           then Inl (HTTPError (status_code res), s1)
                           else (case json res of
                                   None \<Rightarrow> Inl (JSONDecodeError, s1)
                                 | Some payload \<Rightarrow>
                                     Inr (s1\<lparr>cache := (cache s1)(''cognito_user_pool_jwks'' \<mapsto> payload),
                                             COGNITO_USER_POOL_JWKS := payload\<rparr>))))
        in case r of
             Inl (e, s') \<Rightarrow> (Inl e, s')
           | Inr s' \<Rightarrow>
               if \<not> truthy (COGNITO_USER_POOL_JWKS s')
               then (Inl (Exception ''We did not get any JWKs from Cognito.''), s')
               else (Inr (COGNITO_USER_POOL_JWKS s'), s'))
     else (Inr (COGNITO_USER_POOL_JWKS s), s))"

section \<open>The token verifier\<close>

text \<open>The comprehension \<open>[k for k in keys if k["kid"] == key_id]\<close>.\<close>

fun keys_with_kid :: "pyval list \<Rightarrow> pyval \<Rightarrow> error + pyval list" where
  "keys_with_kid [] key_id = Inr []"
| "keys_with_kid (k # ks) key_id =
     (case py_getitem k ''kid'' of
        Inl e \<Rightarrow> Inl e
      | Inr kid \<Rightarrow>
          (case keys_with_kid ks key_id of
             Inl e \<Rightarrow> Inl e
           | Inr r \<Rightarrow> Inr (if py_eq kid key_id then k # r else r)))"

definition get_public_key :: "environment \<Rightarrow> string \<Rightarrow> pyval \<Rightarrow> world \<Rightarrow> (error + rsa_key) \<times> world" where
  "get_public_key env token jwks s =
    (case get_unverified_header env token of
       Inl e \<Rightarrow> (Inl (PyJWTError e), s)
     | Inr header \<Rightarrow>
         (let key_id = dict_get header ''kid'';
              alg = dict_get header ''alg''
          in if \<not> truthy key_id
             then (Inl (AuthenticationFailed
                          [Lit (''Invalid token missing '' @ [CHR 0x27] @ ''kid'' @ [CHR 0x27] @ '' header'')]), s)
             else if \<not> py_eq alg (PStr ''RS256'')
             then (Inl (AuthenticationFailed
                          [Lit (''Unsupported '' @ [CHR 0x27] @ ''alg'' @ [CHR 0x27] @ '' header ''), Fmt alg]), s)
             else (case py_getitem jwks ''keys'' of
                     Inl e \<Rightarrow> (Inl e, s)
                   | Inr keys \<Rightarrow>
                       (case py_iter keys of
                          Inl e \<Rightarrow> (Inl e, s)
                        | Inr ks \<Rightarrow>
                            (case keys_with_kid ks key_id of
                               Inl e \<Rightarrow> (Inl e, s)
                             | Inr [] \<Rightarrow>
                                 (Inl (AuthenticationFailed [Lit ''Forbidden'']),
                                  s\<lparr>log := log s @ [''Header key id not present in passed jwks keys'']\<rparr>)
                             | Inr (key # _) \<Rightarrow>
                                 (case from_jwk env key of
                                    Inl e \<Rightarrow> (Inl e, s)
                                  | Inr k \<Rightarrow> (Inr k, s)))))))"

text \<open>The handler \<open>except jwt.exceptions.PyJWTError\<close> of \<open>validate_jwt\<close>.\<close>

definition except_PyJWTError :: "error \<Rightarrow> world \<Rightarrow> (error + pydict) \<times> world" where
  "except_PyJWTError e s =
    (case e of
       PyJWTError _ \<Rightarrow>
         (Inl (AuthenticationFailed [Lit ''Invalid token'']),
          s\<lparr>log := log s @ [''Error decoding JWT token'']\<rparr>)
     | _ \<Rightarrow> (Inl e, s))"

definition validate_jwt :: "environment \<Rightarrow> string \<Rightarrow> world \<Rightarrow> (error + pydict) \<times> world" where
  "validate_jwt env token s =
    (case get_jwks env s of
       (Inl e, s1) \<Rightarrow> (Inl e, s1)
     | (Inr jwks, s1) \<Rightarrow>
         (case get_public_key env token jwks s1 of
            (Inl e, s2) \<Rightarrow> except_PyJWTError e s2
          | (Inr key, s2) \<Rightarrow>
              (case decode env token key (COGNITO_USER_POOL_URL (settings env)) [''RS256'']
                      JWT_VERIFY_OPTS of
                 Inl e \<Rightarrow> except_PyJWTError (PyJWTError e) s2
               | Inr token_data \<Rightarrow> (Inr token_data, s2))))"

section \<open>The Authorization header\<close>

text \<open>
  \<open>bytes.split()\<close> without a separator splits at runs of ASCII whitespace and yields no
  empty segment; \<open>bytes.lower()\<close> maps the ASCII capitals to small letters.
\<close>

definition is_space :: "char \<Rightarrow> bool" where
  "is_space c = (c \<in> set [CHR 0x20, CHR 0x09, CHR 0x0A, CHR 0x0D, CHR 0x0B, CHR 0x0C])"

fun split_from :: "string \<Rightarrow> string \<Rightarrow> string list" where
  "split_from cur [] = (if cur = [] then [] else [cur])"
| "split_from cur (c # cs) =
     (if is_space c then (if cur = [] then split_from [] cs else cur # split_from [] cs)
      else split_from (cur @ [c]) cs)"

definition bytes_split :: "string \<Rightarrow> string list" where
  "bytes_split b = split_from [] b"

definition lower_byte :: "char \<Rightarrow> char" where
  "lower_byte c =
     (case map_of (zip ''ABCDEFGHIJKLMNOPQRSTUVWXYZ'' ''abcdefghijklmnopqrstuvwxyz'') c of
        None \<Rightarrow> c
      | Some l \<Rightarrow> l)"

definition bytes_lower :: "string \<Rightarrow> string" where
  "bytes_lower b = map lower_byte b"

definition get_authorization_header :: "request \<Rightarrow> string" where
  "get_authorization_header request =
     (case HTTP_AUTHORIZATION request of None \<Rightarrow> [] | Some auth \<Rightarrow> auth)"

definition get_auth_token :: "request \<Rightarrow> string \<Rightarrow> error + string option" where
  "get_auth_token request auth_type =
    (let header = get_authorization_header request;
         split = bytes_split header
     in if length split = 0 then Inr None
        else if length split \<noteq> 2 \<or> bytes_lower (split ! 0) \<noteq> auth_type
        then Inl (AuthenticationFailed
                    [Lit (''Invalid auth header. Format should be '' @ [CHR 0x27]),
                     FmtBytes auth_type, Lit ('' <token>'' @ [CHR 0x27])])
        else Inr (Some (split ! 1)))"

definition get_bearer_token :: "request \<Rightarrow> error + string option" where
  "get_bearer_token request = get_auth_token request ''bearer''"

section \<open>Authentication\<close>

definition validate_id_token_data :: "environment \<Rightarrow> pydict \<Rightarrow> error + unit" where
  "validate_id_token_data env token_data =
    (let aud = dict_get token_data ''aud''
     in if \<not> truthy aud \<or> \<not> py_eq aud (PStr (COGNITO_USER_LOGIN_CLIENT_ID (settings env)))
        then Inl (AuthenticationFailed [Lit ''Invalid id token''])
        else Inr ())"

text \<open>
  The branch on \<open>token_use\<close> in \<open>authenticate\<close>, which binds \<open>user\<close> or raises: an id
  token is looked up by its username, an access token by its API key.
\<close>

definition token_user :: "environment \<Rightarrow> pydict \<Rightarrow> world \<Rightarrow> error + user" where
  "token_user env token_data s =
    (let token_use = dict_get token_data ''token_use''
     in if py_eq token_use (PStr ''id'') then
          (case validate_id_token_data env token_data of
             Inl e \<Rightarrow> Inl e
           | Inr _ \<Rightarrow>
               (let username = dict_get token_data ''cognito:username'';
                    email = dict_get token_data ''email'';
                    email_verified = dict_get token_data ''email_verified''
                in if \<not> truthy email_verified \<or> \<not> truthy email \<or> \<not> truthy username
                   then Inl (AuthenticationFailed [Lit ''Invalid user state''])
                   else (case users s username of
                           None \<Rightarrow> Inl (AuthenticationFailed [Lit ''User does not exist''])
                         | Some u \<Rightarrow> Inr u)))
        else if py_eq token_use (PStr ''access'') then
          (let client_id = dict_get token_data ''client_id''
           in if \<not> truthy client_id
              then Inl (AuthenticationFailed [Lit ''Invalid access token''])
              else (case api_keys s client_id of
                      None \<Rightarrow> Inl (AuthenticationFailed [Lit ''Invalid access token''])
                    | Some key \<Rightarrow> Inr (key_user key)))
        else Inl (AuthenticationFailed [Lit ''Unknown token_use: '', Fmt token_use]))"

text \<open>The test \<open>Only allow admins to impersonate users\<close>.\<close>

definition impersonating :: "user \<Rightarrow> bool" where
  "impersonating u =
     (is_admin u
      \<and> (case impersonated_user u of None \<Rightarrow> False | Some v \<Rightarrow> user_id u \<noteq> user_id v))"

definition authenticate ::
  "environment \<Rightarrow> request \<Rightarrow> world \<Rightarrow> (error + (user \<times> pydict) option) \<times> world" where
  "authenticate env request s =
    (case get_bearer_token request of
       Inl e \<Rightarrow> (Inl e, s)
     | Inr None \<Rightarrow> (Inr None, s)
     | Inr (Some token) \<Rightarrow>
         if token = [] then (Inr None, s)
         else
           (case validate_jwt env token s of
              (Inl e, s1) \<Rightarrow> (Inl e, s1)
            | (Inr token_data, s1) \<Rightarrow>
                (case token_user env token_data s1 of
                   Inl e \<Rightarrow> (Inl e, s1)
                 | Inr u \<Rightarrow>
                     if \<not> is_active u then (Inl (AuthenticationFailed [Lit ''User deactivated'']), s1)
                     else if impersonating u
                     then (Inr (Some (the (impersonated_user u), token_data)), s1)
                     else (Inr (Some (u, token_data)), s1\<lparr>signals := signals s1 @ [u]\<rparr>))))"

definition authenticate_header :: "request \<Rightarrow> string" where
  "authenticate_header request = ''Bearer: realm=api''"

section \<open>A small deployment\<close>

text \<open>
  One user pool, used in the examples below.  The stand-in for PyJWT knows a handful of
  tokens by name: for each its header, the key that signed it and its payload.  A token
  verifies under the key that signed it when its issuer is the expected one; an unknown
  token does not parse.
\<close>

definition example_settings :: settings where
  "example_settings = \<lparr>COGNITO_USER_POOL_URL = ''https://idp.example/pool'',
     COGNITO_USER_LOGIN_CLIENT_ID = ''login-client''\<rparr>"

definition example_jwks :: pyval where
  "example_jwks = PDict [(''keys'', PList [PDict [(''kid'', PStr ''k1''), (''kty'', PStr ''RSA''),
     (''n'', PInt 3233), (''e'', PInt 17)]])]"

definition rs256_k1 :: pydict where
  "rs256_k1 = [(''kid'', PStr ''k1''), (''alg'', PStr ''RS256'')]"

definition id_claims :: "string \<Rightarrow> string \<Rightarrow> pyval \<Rightarrow> pydict" where
  "id_claims aud username email_verified =
     [(''iss'', PStr ''https://idp.example/pool''), (''token_use'', PStr ''id''),
      (''aud'', PStr aud), (''email_verified'', email_verified),
      (''email'', PStr (username @ ''@b.com'')), (''cognito:username'', PStr username)]"

definition access_claims :: "string \<Rightarrow> pydict" where
  "access_claims client_id =
     [(''iss'', PStr ''https://idp.example/pool''), (''token_use'', PStr ''access''),
      (''client_id'', PStr client_id)]"

definition alice_claims :: pydict where
  "alice_claims = id_claims ''login-client'' ''alice'' (PBool True)"

definition example_tokens :: "(string \<times> pydict \<times> rsa_key \<times> pydict) list" where
  "example_tokens =
     [(''alice'', rs256_k1, RSAPublicKey 3233 17, alice_claims),
      (''bob'', rs256_k1, RSAPublicKey 3233 17, access_claims ''key123''),
      (''carol'', rs256_k1, RSAPublicKey 3233 17, id_claims ''login-client'' ''carol'' (PBool True)),
      (''frank'', rs256_k1, RSAPublicKey 3233 17, id_claims ''login-client'' ''alice'' (PStr ''false'')),
      (''erin'', rs256_k1, RSAPublicKey 3233 17, id_claims ''other-client'' ''alice'' (PBool True)),
      (''heidi'', rs256_k1, RSAPublicKey 3233 17, id_claims ''login-client'' ''alice'' (PBool False)),
      (''mallory'', rs256_k1, RSAPublicKey 3233 17, id_claims ''login-client'' ''mallory'' (PBool True)),
      (''nokid'', [(''alg'', PStr ''RS256'')], RSAPublicKey 3233 17, alice_claims),
      (''hs256'', [(''kid'', PStr ''k1''), (''alg'', PStr ''HS256'')], RSAPublicKey 3233 17,
         alice_claims),
      (''rotated'', [(''kid'', PStr ''k9''), (''alg'', PStr ''RS256'')], RSAPublicKey 3233 17,
         alice_claims),
      (''forged'', rs256_k1, RSAPublicKey 2021 5, alice_claims)]"

definition example_from_jwk :: "pyval \<Rightarrow> error + rsa_key" where
  "example_from_jwk k =
     (case (py_getitem k ''n'', py_getitem k ''e'') of
        (Inr (PInt n), Inr (PInt e)) \<Rightarrow> Inr (RSAPublicKey n e)
      | (Inr _, Inr _) \<Rightarrow> Inl ValueError
      | _ \<Rightarrow> Inl (PyJWTError InvalidKeyError))"

definition example_decode ::
  "string \<Rightarrow> rsa_key \<Rightarrow> string \<Rightarrow> string list \<Rightarrow> jwt_options \<Rightarrow> pyjwt_error + pydict" where
  "example_decode token key issuer algs opts =
     (case map_of example_tokens token of
        None \<Rightarrow> Inl DecodeError
      | Some (header, signer, payload) \<Rightarrow>
          if key \<noteq> signer then Inl InvalidSignatureError
          else if dict_get payload ''iss'' \<noteq> PStr issuer then Inl InvalidIssuerError
          else Inr payload)"

definition example_env :: environment where
  "example_env = \<lparr>settings = example_settings,
     get_unverified_header =
       (\<lambda>token. case map_of example_tokens token of
                  None \<Rightarrow> Inl DecodeError | Some (header, _) \<Rightarrow> Inr header),
     from_jwk = example_from_jwk,
     decode = example_decode,
     requests_get =
       (\<lambda>n url. if url = ''https://idp.example/pool/.well-known/jwks.json''
                 then Some \<lparr>status_code = 200, json = Some example_jwks\<rparr> else None)\<rparr>"

definition alice :: user where "alice = User 1 True False None"
definition bob :: user where "bob = User 2 True False None"
definition dave :: user where "dave = User 4 False False None"
definition carol :: user where "carol = User 3 True True (Some dave)"

definition example_world :: world where
  "example_world = \<lparr>COGNITO_USER_POOL_JWKS = PNone, cache = Map.empty, http_requests = [],
     log = [], signals = [],
     users = map_of [(PStr ''alice'', alice), (PStr ''carol'', carol), (PStr ''dave'', dave)],
     api_keys = map_of [(PStr ''key123'', APIKey bob)]\<rparr>"

text \<open>The same world once the key set has been fetched and kept.\<close>

definition example_world_fetched :: world where
  "example_world_fetched = example_world\<lparr>COGNITO_USER_POOL_JWKS := example_jwks,
     cache := [''cognito_user_pool_jwks'' \<mapsto> example_jwks],
     http_requests := [''https://idp.example/pool/.well-known/jwks.json'']\<rparr>"

text \<open>
  The same deployment while the identity provider answers 503, when it answers 503 to
  the first request only, and with a PyJWT whose \<open>from_jwk\<close> raises a given exception.
\<close>

definition example_env_down :: environment where
  "example_env_down =
     example_env\<lparr>requests_get := (\<lambda>n url. Some \<lparr>status_code = 503, json = None\<rparr>)\<rparr>"

definition example_env_flaky :: environment where
  "example_env_flaky =
     example_env\<lparr>requests_get :=
       (\<lambda>n url. if n = 0 then Some \<lparr>status_code = 503, json = None\<rparr>
                 else Some \<lparr>status_code = 200, json = Some example_jwks\<rparr>)\<rparr>"

definition example_env_bad_key :: "error \<Rightarrow> environment" where
  "example_env_bad_key e = example_env\<lparr>from_jwk := (\<lambda>k. Inl e)\<rparr>"

definition bearer :: "string \<Rightarrow> request" where
  "bearer token = \<lparr>HTTP_AUTHORIZATION = Some (''Bearer '' @ token)\<rparr>"

section \<open>Splitting the Authorization header\<close>

lemma split_from_no_empty: "[] \<notin> set (split_from cur b)"
  by (induction b arbitrary: cur) auto









lemmas ex_defs = example_env_def example_world_def example_settings_def example_jwks_def rs256_k1_def
  id_claims_def access_claims_def alice_claims_def example_tokens_def example_from_jwk_def example_decode_def
  alice_def bob_def carol_def dave_def bearer_def
lemmas code_defs = authenticate_def get_bearer_token_def get_auth_token_def get_authorization_header_def
  bytes_split_def bytes_lower_def lower_byte_def is_space_def validate_jwt_def get_jwks_def cache_get_def
  get_public_key_def except_PyJWTError_def token_user_def validate_id_token_data_def dict_get_def
  impersonating_def JWT_VERIFY_OPTS_def

section \<open>What each step leaves unchanged\<close>

lemma get_jwks_frame:
  "get_jwks env s = (r, s') \<Longrightarrow>
   signals s' = signals s \<and> users s' = users s \<and> api_keys s' = api_keys s \<and> log s' = log s"
  by (auto simp: get_jwks_def Let_def split: if_splits option.splits)

lemma get_public_key_frame:
  "get_public_key env token jwks s = (r, s') \<Longrightarrow>
   s' = s \<or> (r = Inl (AuthenticationFailed [Lit ''Forbidden''])
             \<and> s' = s\<lparr>log := log s @ [''Header key id not present in passed jwks keys'']\<rparr>)"
  by (auto simp: get_public_key_def Let_def split: sum.splits list.splits if_splits)

lemma except_PyJWTError_frame:
  "except_PyJWTError e s = (r, s') \<Longrightarrow>
   COGNITO_USER_POOL_JWKS s' = COGNITO_USER_POOL_JWKS s \<and> cache s' = cache s
   \<and> http_requests s' = http_requests s
   \<and> signals s' = signals s \<and> users s' = users s \<and> api_keys s' = api_keys s"
  by (auto simp: except_PyJWTError_def split: error.splits)

lemma validate_jwt_frame:
  assumes "validate_jwt env token s = (r, s')"
  shows "signals s' = signals s \<and> users s' = users s \<and> api_keys s' = api_keys s"
proof -
  obtain r1 s1 where g: "get_jwks env s = (r1, s1)" by (cases "get_jwks env s")
  note f1 = get_jwks_frame [OF g]
  show ?thesis
  proof (cases r1)
    case (Inl e)
    with assms g f1 show ?thesis by (simp add: validate_jwt_def)
  next
    case (Inr jwks)
    obtain r2 s2 where p: "get_public_key env token jwks s1 = (r2, s2)"
      by (cases "get_public_key env token jwks s1")
    from get_public_key_frame [OF p] f1
    have f2: "signals s2 = signals s \<and> users s2 = users s \<and> api_keys s2 = api_keys s"
      by auto
    from assms g Inr p f2 show ?thesis
      by (auto simp: validate_jwt_def split: sum.splits dest: except_PyJWTError_frame)
  qed
qed

lemma token_user_tables:
  assumes "users s' = users s" and "api_keys s' = api_keys s"
  shows "token_user env td s' = token_user env td s"
  unfolding token_user_def assms by (rule refl)

lemma authenticate_success:
  "authenticate env request s = (Inr (Some (p, td)), s') \<Longrightarrow>
   \<exists>token s1 u. get_bearer_token request = Inr (Some token) \<and> token \<noteq> []
     \<and> validate_jwt env token s = (Inr td, s1) \<and> token_user env td s1 = Inr u \<and> is_active u
     \<and> (if impersonating u then impersonated_user u = Some p \<and> s' = s1
         else p = u \<and> s' = s1\<lparr>signals := signals s1 @ [u]\<rparr>)"
  by (auto simp: authenticate_def impersonating_def
           split: sum.splits option.splits if_splits prod.splits)

lemma authenticate_no_principal:
  assumes "authenticate env request s = (r, s')" and "r = Inr None \<or> (\<exists>e. r = Inl e)"
  shows "signals s' = signals s \<and> users s' = users s \<and> api_keys s' = api_keys s"
  using assms
  by (auto simp: authenticate_def split: sum.splits option.splits if_splits prod.splits
           dest: validate_jwt_frame)

section \<open>Runs of the small deployment\<close>

lemmas ex_defs2 = ex_defs example_world_fetched_def example_env_down_def example_env_flaky_def example_env_bad_key_def

lemma no_header:
  "authenticate example_env \<lparr>HTTP_AUTHORIZATION = None\<rparr> example_world = (Inr None, example_world)"
  by (simp add: code_defs)

lemma basic_header:
  "authenticate example_env \<lparr>HTTP_AUTHORIZATION = Some ''Basic abc''\<rparr> example_world =
     (Inl (AuthenticationFailed
            [Lit (''Invalid auth header. Format should be '' @ [CHR 0x27]),
             FmtBytes ''bearer'', Lit ('' <token>'' @ [CHR 0x27])]), example_world)"
  by (simp add: code_defs)

lemma erin_rejected:
  "authenticate example_env (bearer ''erin'') example_world =
     (Inl (AuthenticationFailed [Lit ''Invalid id token'']), example_world_fetched)"
  by (simp add: code_defs ex_defs2)

lemma heidi_rejected:
  "authenticate example_env (bearer ''heidi'') example_world =
     (Inl (AuthenticationFailed [Lit ''Invalid user state'']), example_world_fetched)"
  by (simp add: code_defs ex_defs2)

lemma mallory_rejected:
  "authenticate example_env (bearer ''mallory'') example_world =
     (Inl (AuthenticationFailed [Lit ''User does not exist'']), example_world_fetched)"
  by (simp add: code_defs ex_defs2)

lemma bob_direct:
  "authenticate example_env (bearer ''bob'') example_world =
     (Inr (Some (bob, access_claims ''key123'')), example_world_fetched\<lparr>signals := [bob]\<rparr>)"
  by (simp add: code_defs ex_defs2)

lemma carol_imp:
  "authenticate example_env (bearer ''carol'') example_world =
     (Inr (Some (dave, id_claims ''login-client'' ''carol'' (PBool True))), example_world_fetched)"
  by (simp add: code_defs ex_defs2)

lemma alice_direct:
  "authenticate example_env (bearer ''alice'') example_world =
     (Inr (Some (alice, alice_claims)), example_world_fetched\<lparr>signals := [alice]\<rparr>)"
  by (simp add: code_defs ex_defs2)

lemma frank_direct:
  "authenticate example_env (bearer ''frank'') example_world =
     (Inr (Some (alice, id_claims ''login-client'' ''alice'' (PStr ''false''))), example_world_fetched\<lparr>signals := [alice]\<rparr>)"
  by (simp add: code_defs ex_defs2)


section \<open>The login signal\<close>

text \<open>
  C1 (as amended).  The \<open>user_logged_in\<close> signal is sent exactly once, for the resolved
  user, by every authentication that succeeds without impersonation, whether the token is
  an identity token or an access token.  It is not sent when the impersonated user is
  returned, when authentication fails, or when no authentication is attempted.
\<close>

theorem login_signal_on_direct_success:
  assumes "authenticate env request s = (r, s')"
  shows "(\<forall>p td. r = Inr (Some (p, td)) \<longrightarrow>
            (\<exists>u. token_user env td s = Inr u \<and>
                 (if impersonating u then signals s' = signals s
                  else p = u \<and> signals s' = signals s @ [u])))
         \<and> (r = Inr None \<or> (\<exists>e. r = Inl e) \<longrightarrow> signals s' = signals s)"
proof (intro conjI allI impI)
  fix p td assume r: "r = Inr (Some (p, td))"
  from authenticate_success [OF assms [unfolded r]]
  obtain token s1 u where v: "validate_jwt env token s = (Inr td, s1)"
    and u: "token_user env td s1 = Inr u"
    and e: "if impersonating u then impersonated_user u = Some p \<and> s' = s1
            else p = u \<and> s' = s1\<lparr>signals := signals s1 @ [u]\<rparr>"
    by blast
  from validate_jwt_frame [OF v]
  have f: "signals s1 = signals s" "users s1 = users s" "api_keys s1 = api_keys s" by simp_all
  from u f have "token_user env td s = Inr u"
    by (simp add: token_user_tables [of s1 s])
  moreover from e f(1) have "if impersonating u then signals s' = signals s
      else p = u \<and> signals s' = signals s @ [u]"
    by (auto split: if_splits)
  ultimately show "\<exists>u. token_user env td s = Inr u \<and>
      (if impersonating u then signals s' = signals s else p = u \<and> signals s' = signals s @ [u])"
    by blast
next
  assume "r = Inr None \<or> (\<exists>e. r = Inl e)"
  with authenticate_no_principal [OF assms] show "signals s' = signals s" by simp
qed

theorem login_signal_on_direct_success_witness:
  "authenticate example_env (bearer ''bob'') example_world =
     (Inr (Some (bob, access_claims ''key123'')), example_world_fetched\<lparr>signals := [bob]\<rparr>)
   \<and> token_user example_env (access_claims ''key123'') example_world = Inr bob
   \<and> \<not> impersonating bob
   \<and> signals (example_world_fetched\<lparr>signals := [bob]\<rparr>) = signals example_world @ [bob]
   \<and> authenticate example_env \<lparr>HTTP_AUTHORIZATION = None\<rparr> example_world = (Inr None, example_world)"
  using bob_direct no_header
    login_signal_on_direct_success [OF bob_direct] login_signal_on_direct_success [OF no_header]
  by (simp add: token_user_def dict_get_def impersonating_def ex_defs2)

text \<open>
  The access token of the API key \<open>key123\<close>, owned by the active user bob, authenticates
  bob without impersonation, and the signal is sent for bob.
\<close>

theorem access_token_fires_login_signal:
  "authenticate example_env (bearer ''bob'') example_world =
     (Inr (Some (bob, access_claims ''key123'')), example_world_fetched\<lparr>signals := [bob]\<rparr>)
   \<and> dict_get (access_claims ''key123'') ''token_use'' = PStr ''access''
   \<and> \<not> impersonating bob
   \<and> signals example_world = []
   \<and> signals (example_world_fetched\<lparr>signals := [bob]\<rparr>) = [bob]"
  using bob_direct by (simp add: dict_get_def impersonating_def ex_defs2)

section \<open>The authorization gate\<close>

lemma py_eq_PStr: "py_eq v (PStr t) = (v = PStr t)"
  by (cases v) auto

lemma bearer_token_nonempty:
  assumes "get_bearer_token request = Inr (Some token)"
  shows "token \<noteq> []"
proof -
  let ?split = "bytes_split (get_authorization_header request)"
  from assms have l: "length ?split = 2" and t: "token = ?split ! 1"
    by (auto simp: get_bearer_token_def get_auth_token_def Let_def split: if_splits)
  then have "token \<in> set ?split" by simp
  moreover have "[] \<notin> set ?split" by (simp add: bytes_split_def split_from_no_empty)
  ultimately show ?thesis by auto
qed

lemma authenticate_verified:
  assumes "get_bearer_token request = Inr (Some token)"
    and "validate_jwt env token s = (Inr td, s1)"
  shows "authenticate env request s =
     (case token_user env td s1 of
        Inl e \<Rightarrow> (Inl e, s1)
      | Inr u \<Rightarrow>
          if \<not> is_active u then (Inl (AuthenticationFailed [Lit ''User deactivated'']), s1)
          else if impersonating u then (Inr (Some (the (impersonated_user u), td)), s1)
          else (Inr (Some (u, td)), s1\<lparr>signals := signals s1 @ [u]\<rparr>))"
  using assms bearer_token_nonempty [OF assms(1)] by (simp add: authenticate_def)

text \<open>
  C2 (as amended).  Whenever \<open>authenticate\<close> returns a principal, the user resolved
  from the token (found by username, or owning the API key) is active.  Without
  impersonation that user is the principal returned, so the principal returned is active.
  With impersonation the principal returned is the resolved admin's
  \<open>impersonated_user\<close>, whose \<open>is_active\<close> is not read.
\<close>

theorem resolved_principal_is_active:
  assumes "authenticate env request s = (Inr (Some (p, td)), s')"
  shows "\<exists>u. token_user env td s = Inr u \<and> is_active u
           \<and> (if impersonating u then impersonated_user u = Some p else p = u \<and> is_active p)"
proof -
  from authenticate_success [OF assms]
  obtain token s1 u where v: "validate_jwt env token s = (Inr td, s1)"
    and u: "token_user env td s1 = Inr u" and a: "is_active u"
    and e: "if impersonating u then impersonated_user u = Some p \<and> s' = s1
            else p = u \<and> s' = s1\<lparr>signals := signals s1 @ [u]\<rparr>"
    by blast
  from validate_jwt_frame [OF v] u have "token_user env td s = Inr u"
    by (simp add: token_user_tables [of s1 s])
  with a e show ?thesis by (auto split: if_splits)
qed

theorem resolved_principal_is_active_witness:
  "authenticate example_env (bearer ''alice'') example_world =
     (Inr (Some (alice, alice_claims)), example_world_fetched\<lparr>signals := [alice]\<rparr>)
   \<and> token_user example_env alice_claims example_world = Inr alice
   \<and> is_active alice \<and> \<not> impersonating alice
   \<and> authenticate example_env (bearer ''carol'') example_world =
     (Inr (Some (dave, id_claims ''login-client'' ''carol'' (PBool True))), example_world_fetched)
   \<and> token_user example_env (id_claims ''login-client'' ''carol'' (PBool True)) example_world = Inr carol
   \<and> is_active carol \<and> impersonating carol \<and> impersonated_user carol = Some dave"
  using alice_direct carol_imp
    resolved_principal_is_active [OF alice_direct] resolved_principal_is_active [OF carol_imp]
  by (simp add: token_user_def validate_id_token_data_def dict_get_def impersonating_def ex_defs2)

text \<open>
  The admin carol is active and impersonates dave, who is deactivated: her identity
  token returns dave.
\<close>

theorem impersonated_user_may_be_deactivated:
  "authenticate example_env (bearer ''carol'') example_world =
     (Inr (Some (dave, id_claims ''login-client'' ''carol'' (PBool True))), example_world_fetched)
   \<and> \<not> is_active dave"
  using carol_imp by (simp add: dave_def)

section \<open>The shape of the Authorization header\<close>

text \<open>
  C9.  When the Authorization header has no segment (in particular when it is absent),
  \<open>authenticate\<close> returns \<open>None\<close>: no principal, no error, and the state untouched.
  When it has segments, but not exactly two or not the scheme \<open>bearer\<close>,
  \<open>authenticate\<close> fails with the error whose message names the expected format, the
  scheme followed by \<open><token>\<close>.
\<close>

theorem authorization_header_shape:
  "(bytes_split (get_authorization_header request) = [] \<longrightarrow>
      authenticate env request s = (Inr None, s))
   \<and> (HTTP_AUTHORIZATION request = None \<longrightarrow> bytes_split (get_authorization_header request) = [])
   \<and> (bytes_split (get_authorization_header request) \<noteq> []
       \<and> (length (bytes_split (get_authorization_header request)) \<noteq> 2
          \<or> bytes_lower (bytes_split (get_authorization_header request) ! 0) \<noteq> ''bearer'') \<longrightarrow>
      authenticate env request s =
        (Inl (AuthenticationFailed
               [Lit (''Invalid auth header. Format should be '' @ [CHR 0x27]),
                FmtBytes ''bearer'', Lit ('' <token>'' @ [CHR 0x27])]), s))"
  by (auto simp: authenticate_def get_bearer_token_def get_auth_token_def Let_def
        get_authorization_header_def bytes_split_def)

theorem authorization_header_shape_witness:
  "bytes_split (get_authorization_header \<lparr>HTTP_AUTHORIZATION = None\<rparr>) = []
   \<and> authenticate example_env \<lparr>HTTP_AUTHORIZATION = None\<rparr> example_world = (Inr None, example_world)
   \<and> bytes_split (get_authorization_header \<lparr>HTTP_AUTHORIZATION = Some ''Basic abc''\<rparr>) = [''Basic'', ''abc'']
   \<and> bytes_lower ''Basic'' \<noteq> ''bearer''
   \<and> authenticate example_env \<lparr>HTTP_AUTHORIZATION = Some ''Basic abc''\<rparr> example_world =
        (Inl (AuthenticationFailed
               [Lit (''Invalid auth header. Format should be '' @ [CHR 0x27]),
                FmtBytes ''bearer'', Lit ('' <token>'' @ [CHR 0x27])]), example_world)
   \<and> bytes_split (get_authorization_header \<lparr>HTTP_AUTHORIZATION = Some ''Bearer a b''\<rparr>) = [''Bearer'', ''a'', ''b'']
   \<and> authenticate example_env \<lparr>HTTP_AUTHORIZATION = Some ''Bearer a b''\<rparr> example_world =
        (Inl (AuthenticationFailed
               [Lit (''Invalid auth header. Format should be '' @ [CHR 0x27]),
                FmtBytes ''bearer'', Lit ('' <token>'' @ [CHR 0x27])]), example_world)"
  using authorization_header_shape [of "\<lparr>HTTP_AUTHORIZATION = None\<rparr>" example_env example_world]
    authorization_header_shape [of "\<lparr>HTTP_AUTHORIZATION = Some ''Basic abc''\<rparr>" example_env example_world]
    authorization_header_shape [of "\<lparr>HTTP_AUTHORIZATION = Some ''Bearer a b''\<rparr>" example_env example_world]
  by (simp add: get_authorization_header_def bytes_split_def bytes_lower_def lower_byte_def is_space_def)

section \<open>The claim policy for identity tokens\<close>

lemmas validate_defs = validate_jwt_def get_jwks_def cache_get_def get_public_key_def
  except_PyJWTError_def dict_get_def JWT_VERIFY_OPTS_def

lemma bearer_example: "get_bearer_token (bearer ''erin'') = Inr (Some ''erin'')"
  "get_bearer_token (bearer ''heidi'') = Inr (Some ''heidi'')"
  "get_bearer_token (bearer ''frank'') = Inr (Some ''frank'')"
  "get_bearer_token (bearer ''mallory'') = Inr (Some ''mallory'')"
  by (simp_all add: bearer_def get_bearer_token_def get_auth_token_def get_authorization_header_def
        bytes_split_def bytes_lower_def lower_byte_def is_space_def)

lemma validate_erin:
  "validate_jwt example_env ''erin'' example_world =
     (Inr (id_claims ''other-client'' ''alice'' (PBool True)), example_world_fetched)"
  by (simp add: validate_defs ex_defs2)

lemma validate_heidi:
  "validate_jwt example_env ''heidi'' example_world =
     (Inr (id_claims ''login-client'' ''alice'' (PBool False)), example_world_fetched)"
  by (simp add: validate_defs ex_defs2)

lemma validate_frank:
  "validate_jwt example_env ''frank'' example_world =
     (Inr (id_claims ''login-client'' ''alice'' (PStr ''false'')), example_world_fetched)"
  by (simp add: validate_defs ex_defs2)

lemma validate_mallory:
  "validate_jwt example_env ''mallory'' example_world =
     (Inr (id_claims ''login-client'' ''mallory'' (PBool True)), example_world_fetched)"
  by (simp add: validate_defs ex_defs2)

text \<open>
  C4 (as amended).  For verified claims with \<open>token_use == "id"\<close>: unless \<open>aud\<close> is
  present and equal to the configured login-client identifier, authentication fails with
  \<open>Invalid id token\<close>; otherwise, unless \<open>email_verified\<close>, \<open>email\<close> and the
  username are all truthy (not missing, false, zero or empty), it fails with
  \<open>Invalid user state\<close>.  So no principal is returned unless all four hold.  The test
  of \<open>email_verified\<close> is truthiness, not equality with \<open>true\<close>.
\<close>

theorem id_token_claim_policy:
  assumes "get_bearer_token request = Inr (Some token)"
    and "validate_jwt env token s = (Inr td, s1)"
    and "py_eq (dict_get td ''token_use'') (PStr ''id'')"
  shows "(dict_get td ''aud'' \<noteq> PStr (COGNITO_USER_LOGIN_CLIENT_ID (settings env))
          \<or> COGNITO_USER_LOGIN_CLIENT_ID (settings env) = [] \<longrightarrow>
            authenticate env request s = (Inl (AuthenticationFailed [Lit ''Invalid id token'']), s1))
       \<and> (dict_get td ''aud'' = PStr (COGNITO_USER_LOGIN_CLIENT_ID (settings env))
          \<and> COGNITO_USER_LOGIN_CLIENT_ID (settings env) \<noteq> []
          \<and> (\<not> truthy (dict_get td ''email_verified'') \<or> \<not> truthy (dict_get td ''email'')
             \<or> \<not> truthy (dict_get td ''cognito:username'')) \<longrightarrow>
            authenticate env request s = (Inl (AuthenticationFailed [Lit ''Invalid user state'']), s1))
       \<and> (\<forall>r s'. authenticate env request s = (Inr r, s') \<longrightarrow>
            dict_get td ''aud'' = PStr (COGNITO_USER_LOGIN_CLIENT_ID (settings env))
            \<and> truthy (dict_get td ''email_verified'') \<and> truthy (dict_get td ''email'')
            \<and> truthy (dict_get td ''cognito:username''))"
proof -
  note a = authenticate_verified [OF assms(1,2)]
  have 1: "dict_get td ''aud'' \<noteq> PStr (COGNITO_USER_LOGIN_CLIENT_ID (settings env))
          \<or> COGNITO_USER_LOGIN_CLIENT_ID (settings env) = [] \<Longrightarrow>
        token_user env td s1 = Inl (AuthenticationFailed [Lit ''Invalid id token''])"
    using assms(3) by (auto simp: token_user_def validate_id_token_data_def py_eq_PStr Let_def)
  have 2: "dict_get td ''aud'' = PStr (COGNITO_USER_LOGIN_CLIENT_ID (settings env))
          \<and> COGNITO_USER_LOGIN_CLIENT_ID (settings env) \<noteq> []
          \<and> (\<not> truthy (dict_get td ''email_verified'') \<or> \<not> truthy (dict_get td ''email'')
             \<or> \<not> truthy (dict_get td ''cognito:username'')) \<Longrightarrow>
        token_user env td s1 = Inl (AuthenticationFailed [Lit ''Invalid user state''])"
    using assms(3) by (auto simp: token_user_def validate_id_token_data_def py_eq_PStr Let_def)
  have 3: "token_user env td s1 = Inr u \<Longrightarrow>
        dict_get td ''aud'' = PStr (COGNITO_USER_LOGIN_CLIENT_ID (settings env))
        \<and> truthy (dict_get td ''email_verified'') \<and> truthy (dict_get td ''email'')
        \<and> truthy (dict_get td ''cognito:username'')" for u
    using assms(3)
    by (auto simp: token_user_def validate_id_token_data_def py_eq_PStr Let_def
          split: if_splits option.splits)
  show ?thesis
  proof (intro conjI allI impI)
    assume "dict_get td ''aud'' \<noteq> PStr (COGNITO_USER_LOGIN_CLIENT_ID (settings env))
          \<or> COGNITO_USER_LOGIN_CLIENT_ID (settings env) = []"
    from 1 [OF this] show "authenticate env request s =
        (Inl (AuthenticationFailed [Lit ''Invalid id token'']), s1)"
      by (simp add: a)
  next
    assume "dict_get td ''aud'' = PStr (COGNITO_USER_LOGIN_CLIENT_ID (settings env))
          \<and> COGNITO_USER_LOGIN_CLIENT_ID (settings env) \<noteq> []
          \<and> (\<not> truthy (dict_get td ''email_verified'') \<or> \<not> truthy (dict_get td ''email'')
             \<or> \<not> truthy (dict_get td ''cognito:username''))"
    from 2 [OF this] show "authenticate env request s =
        (Inl (AuthenticationFailed [Lit ''Invalid user state'']), s1)"
      by (simp add: a)
  next
    fix r s' assume "authenticate env request s = (Inr r, s')"
    then obtain u where "token_user env td s1 = Inr u"
      by (auto simp: a split: sum.splits if_splits)
    from 3 [OF this]
    show "dict_get td ''aud'' = PStr (COGNITO_USER_LOGIN_CLIENT_ID (settings env))"
      and "truthy (dict_get td ''email_verified'')" and "truthy (dict_get td ''email'')"
      and "truthy (dict_get td ''cognito:username'')"
      by simp_all
  qed
qed

theorem id_token_claim_policy_witness:
  "get_bearer_token (bearer ''erin'') = Inr (Some ''erin'')
   \<and> validate_jwt example_env ''erin'' example_world =
       (Inr (id_claims ''other-client'' ''alice'' (PBool True)), example_world_fetched)
   \<and> py_eq (dict_get (id_claims ''other-client'' ''alice'' (PBool True)) ''token_use'') (PStr ''id'')
   \<and> dict_get (id_claims ''other-client'' ''alice'' (PBool True)) ''aud''
       \<noteq> PStr (COGNITO_USER_LOGIN_CLIENT_ID (settings example_env))
   \<and> authenticate example_env (bearer ''erin'') example_world =
       (Inl (AuthenticationFailed [Lit ''Invalid id token'']), example_world_fetched)
   \<and> get_bearer_token (bearer ''heidi'') = Inr (Some ''heidi'')
   \<and> validate_jwt example_env ''heidi'' example_world =
       (Inr (id_claims ''login-client'' ''alice'' (PBool False)), example_world_fetched)
   \<and> \<not> truthy (dict_get (id_claims ''login-client'' ''alice'' (PBool False)) ''email_verified'')
   \<and> authenticate example_env (bearer ''heidi'') example_world =
       (Inl (AuthenticationFailed [Lit ''Invalid user state'']), example_world_fetched)
   \<and> get_bearer_token (bearer ''frank'') = Inr (Some ''frank'')
   \<and> validate_jwt example_env ''frank'' example_world =
       (Inr (id_claims ''login-client'' ''alice'' (PStr ''false'')), example_world_fetched)
   \<and> authenticate example_env (bearer ''frank'') example_world =
       (Inr (Some (alice, id_claims ''login-client'' ''alice'' (PStr ''false''))),
        example_world_fetched\<lparr>signals := [alice]\<rparr>)
   \<and> truthy (dict_get (id_claims ''login-client'' ''alice'' (PStr ''false'')) ''email_verified'')"
proof -
  have e: "py_eq (dict_get (id_claims ''other-client'' ''alice'' (PBool True)) ''token_use'') (PStr ''id'')"
    and h: "py_eq (dict_get (id_claims ''login-client'' ''alice'' (PBool False)) ''token_use'') (PStr ''id'')"
    and f: "py_eq (dict_get (id_claims ''login-client'' ''alice'' (PStr ''false'')) ''token_use'') (PStr ''id'')"
    by (simp_all add: dict_get_def id_claims_def)
  show ?thesis
    using bearer_example validate_erin validate_heidi validate_frank frank_direct
      id_token_claim_policy [OF bearer_example(1) validate_erin e]
      id_token_claim_policy [OF bearer_example(2) validate_heidi h]
      id_token_claim_policy [OF bearer_example(3) validate_frank f]
    by (simp add: dict_get_def id_claims_def example_env_def example_settings_def)
qed

text \<open>
  An identity token whose \<open>email_verified\<close> is the text \<open>false\<close>, which is truthy and
  is not equal to \<open>true\<close>, authenticates alice.
\<close>

theorem unverified_email_string_accepted:
  "authenticate example_env (bearer ''frank'') example_world =
     (Inr (Some (alice, id_claims ''login-client'' ''alice'' (PStr ''false''))),
      example_world_fetched\<lparr>signals := [alice]\<rparr>)
   \<and> dict_get (id_claims ''login-client'' ''alice'' (PStr ''false'')) ''token_use'' = PStr ''id''
   \<and> dict_get (id_claims ''login-client'' ''alice'' (PStr ''false'')) ''email_verified'' = PStr ''false''
   \<and> \<not> py_eq (PStr ''false'') (PBool True)"
  using frank_direct by (simp add: dict_get_def id_claims_def)

section \<open>Identity tokens of unknown users\<close>

text \<open>
  C5.  When the username of a verified identity token is not in the user table,
  \<open>authenticate\<close> fails and the user table is unchanged: no user is created.  When
  the token passes the claim policy, so that the lookup is reached, the failure is
  \<open>User does not exist\<close>.
\<close>

theorem unknown_username_not_provisioned:
  assumes "get_bearer_token request = Inr (Some token)"
    and "validate_jwt env token s = (Inr td, s1)"
    and "py_eq (dict_get td ''token_use'') (PStr ''id'')"
    and "users s (dict_get td ''cognito:username'') = None"
  shows "(\<exists>m. authenticate env request s = (Inl (AuthenticationFailed m), s1))
       \<and> users s1 = users s
       \<and> (dict_get td ''aud'' = PStr (COGNITO_USER_LOGIN_CLIENT_ID (settings env))
          \<and> COGNITO_USER_LOGIN_CLIENT_ID (settings env) \<noteq> []
          \<and> truthy (dict_get td ''email_verified'') \<and> truthy (dict_get td ''email'')
          \<and> truthy (dict_get td ''cognito:username'') \<longrightarrow>
            authenticate env request s = (Inl (AuthenticationFailed [Lit ''User does not exist'']), s1))"
proof -
  note a = authenticate_verified [OF assms(1,2)]
  from validate_jwt_frame [OF assms(2)] have u: "users s1 = users s" by simp
  with assms(4) have n: "users s1 (dict_get td ''cognito:username'') = None" by simp
  have "\<exists>m. token_user env td s1 = Inl (AuthenticationFailed m)"
    using assms(3) n by (auto simp: token_user_def validate_id_token_data_def Let_def)
  moreover have "dict_get td ''aud'' = PStr (COGNITO_USER_LOGIN_CLIENT_ID (settings env))
          \<and> COGNITO_USER_LOGIN_CLIENT_ID (settings env) \<noteq> []
          \<and> truthy (dict_get td ''email_verified'') \<and> truthy (dict_get td ''email'')
          \<and> truthy (dict_get td ''cognito:username'') \<Longrightarrow>
        token_user env td s1 = Inl (AuthenticationFailed [Lit ''User does not exist''])"
    using assms(3) n by (auto simp: token_user_def validate_id_token_data_def Let_def)
  ultimately show ?thesis using u by (auto simp: a)
qed

theorem unknown_username_not_provisioned_witness:
  "get_bearer_token (bearer ''mallory'') = Inr (Some ''mallory'')
   \<and> validate_jwt example_env ''mallory'' example_world =
       (Inr (id_claims ''login-client'' ''mallory'' (PBool True)), example_world_fetched)
   \<and> py_eq (dict_get (id_claims ''login-client'' ''mallory'' (PBool True)) ''token_use'') (PStr ''id'')
   \<and> users example_world (dict_get (id_claims ''login-client'' ''mallory'' (PBool True)) ''cognito:username'') = None
   \<and> authenticate example_env (bearer ''mallory'') example_world =
       (Inl (AuthenticationFailed [Lit ''User does not exist'']), example_world_fetched)
   \<and> users example_world_fetched = users example_world"
proof -
  have t: "py_eq (dict_get (id_claims ''login-client'' ''mallory'' (PBool True)) ''token_use'') (PStr ''id'')"
    by (simp add: dict_get_def id_claims_def)
  have n: "users example_world (dict_get (id_claims ''login-client'' ''mallory'' (PBool True)) ''cognito:username'') = None"
    by (simp add: dict_get_def id_claims_def example_world_def)
  show ?thesis
    using bearer_example(4) validate_mallory t n
      unknown_username_not_provisioned [OF bearer_example(4) validate_mallory t n]
    by (simp add: dict_get_def id_claims_def example_env_def example_settings_def
          example_world_fetched_def)
qed

section \<open>The checks on the unverified header\<close>

lemma keys_with_kid_none:
  "\<forall>k\<in>set ks. \<exists>kid. py_getitem k ''kid'' = Inr kid \<and> \<not> py_eq kid key_id \<Longrightarrow>
   keys_with_kid ks key_id = Inr []"
  by (induction ks) auto

lemma get_jwks_libs:
  "get_jwks (env\<lparr>decode := d, from_jwk := f\<rparr>) s = get_jwks env s"
  by (simp add: get_jwks_def Let_def cong del: if_weak_cong cong: option.case_cong sum.case_cong)

lemma get_public_key_header_error:
  assumes "get_unverified_header env token = Inr header"
    and "\<not> truthy (dict_get header ''kid'') \<or> \<not> py_eq (dict_get header ''alg'') (PStr ''RS256'')"
  shows "get_public_key env token jwks s = (Inl (AuthenticationFailed (if \<not> truthy (dict_get header ''kid'')
         then [Lit (''Invalid token missing '' @ [CHR 0x27] @ ''kid'' @ [CHR 0x27] @ '' header'')]
         else [Lit (''Unsupported '' @ [CHR 0x27] @ ''alg'' @ [CHR 0x27] @ '' header ''),
               Fmt (dict_get header ''alg'')])), s)"
  using assms by (auto simp: get_public_key_def Let_def)

lemma validate_jwt_header_error:
  assumes "get_unverified_header env token = Inr header"
    and "\<not> truthy (dict_get header ''kid'') \<or> \<not> py_eq (dict_get header ''alg'') (PStr ''RS256'')"
  shows "validate_jwt env token s =
     (case get_jwks env s of
        (Inl e, s1) \<Rightarrow> (Inl e, s1)
      | (Inr jwks, s1) \<Rightarrow> (Inl (AuthenticationFailed (if \<not> truthy (dict_get header ''kid'')
         then [Lit (''Invalid token missing '' @ [CHR 0x27] @ ''kid'' @ [CHR 0x27] @ '' header'')]
         else [Lit (''Unsupported '' @ [CHR 0x27] @ ''alg'' @ [CHR 0x27] @ '' header ''),
               Fmt (dict_get header ''alg'')])), s1))"
  by (simp add: validate_jwt_def get_public_key_header_error [OF assms] except_PyJWTError_def
        split: prod.splits sum.splits)

lemma validate_jwt_key_store_error:
  "get_jwks env s = (Inl e, s1) \<Longrightarrow> validate_jwt env token s = (Inl e, s1)"
  by (simp add: validate_jwt_def)

text \<open>
  C6 (as amended).  When the unverified header of a token has no \<open>kid\<close>, or an
  \<open>alg\<close> other than \<open>RS256\<close>, verification fails, and the outcome is the same
  whatever \<open>from_jwk\<close> and \<open>decode\<close> would answer: the token is rejected before a
  key is built or a signature is checked, even if the signature would validate.  The key
  set is obtained first.  When \<open>get_jwks\<close> returns a key set, the failure is the
  \<open>AuthenticationFailed\<close> raised by \<open>_get_public_key\<close>, which \<open>validate_jwt\<close>
  passes on.  When \<open>get_jwks\<close> fails, verification fails with the error of
  \<open>get_jwks\<close>.
\<close>

theorem header_rejected_before_signature_check:
  assumes "get_unverified_header env token = Inr header"
    and "\<not> truthy (dict_get header ''kid'') \<or> \<not> py_eq (dict_get header ''alg'') (PStr ''RS256'')"
  shows "(\<exists>e s'. validate_jwt env token s = (Inl e, s'))
       \<and> (\<forall>jwks s1. get_jwks env s = (Inr jwks, s1) \<longrightarrow>
            (\<exists>m. get_public_key env token jwks s1 = (Inl (AuthenticationFailed m), s1)
                 \<and> validate_jwt env token s = (Inl (AuthenticationFailed m), s1)))
       \<and> (\<forall>e s1. get_jwks env s = (Inl e, s1) \<longrightarrow> validate_jwt env token s = (Inl e, s1))
       \<and> (\<forall>d f. validate_jwt (env\<lparr>decode := d, from_jwk := f\<rparr>) token s = validate_jwt env token s)"
proof (intro conjI allI impI)
  show "\<exists>e s'. validate_jwt env token s = (Inl e, s')"
    by (auto simp: validate_jwt_header_error [OF assms] split: prod.splits sum.splits)
next
  fix jwks s1 assume "get_jwks env s = (Inr jwks, s1)"
  then show "\<exists>m. get_public_key env token jwks s1 = (Inl (AuthenticationFailed m), s1)
                 \<and> validate_jwt env token s = (Inl (AuthenticationFailed m), s1)"
    by (simp add: validate_jwt_header_error [OF assms] get_public_key_header_error [OF assms])
next
  fix e s1 assume "get_jwks env s = (Inl e, s1)"
  then show "validate_jwt env token s = (Inl e, s1)"
    by (rule validate_jwt_key_store_error)
next
  fix d f
  have "get_unverified_header (env\<lparr>decode := d, from_jwk := f\<rparr>) token = Inr header"
    using assms(1) by simp
  from validate_jwt_header_error [OF this assms(2)]
  show "validate_jwt (env\<lparr>decode := d, from_jwk := f\<rparr>) token s = validate_jwt env token s"
    by (simp add: validate_jwt_header_error [OF assms] get_jwks_libs)
qed

lemma validate_nokid:
  "validate_jwt example_env ''nokid'' example_world =
     (Inl (AuthenticationFailed
            [Lit (''Invalid token missing '' @ [CHR 0x27] @ ''kid'' @ [CHR 0x27] @ '' header'')]),
      example_world_fetched)"
  by (simp add: validate_defs ex_defs2)

lemma validate_hs256:
  "validate_jwt example_env ''hs256'' example_world =
     (Inl (AuthenticationFailed
            [Lit (''Unsupported '' @ [CHR 0x27] @ ''alg'' @ [CHR 0x27] @ '' header ''),
             Fmt (PStr ''HS256'')]),
      example_world_fetched)"
  by (simp add: validate_defs ex_defs2)

lemma validate_rotated:
  "validate_jwt example_env ''rotated'' example_world =
     (Inl (AuthenticationFailed [Lit ''Forbidden'']),
      example_world_fetched\<lparr>log := [''Header key id not present in passed jwks keys'']\<rparr>)"
  by (simp add: validate_defs ex_defs2)

lemma validate_forged:
  "validate_jwt example_env ''forged'' example_world =
     (Inl (AuthenticationFailed [Lit ''Invalid token'']),
      example_world_fetched\<lparr>log := [''Error decoding JWT token'']\<rparr>)"
  by (simp add: validate_defs ex_defs2)

lemma validate_garbage:
  "validate_jwt example_env ''garbage'' example_world =
     (Inl (AuthenticationFailed [Lit ''Invalid token'']),
      example_world_fetched\<lparr>log := [''Error decoding JWT token'']\<rparr>)"
  by (simp add: validate_defs ex_defs2)

lemma get_jwks_example:
  "get_jwks example_env example_world = (Inr example_jwks, example_world_fetched)"
  "get_jwks example_env example_world_fetched = (Inr example_jwks, example_world_fetched)"
  by (simp_all add: get_jwks_def cache_get_def ex_defs2)

lemma header_example:
  "get_unverified_header example_env ''nokid'' = Inr [(''alg'', PStr ''RS256'')]"
  "get_unverified_header example_env ''hs256'' = Inr [(''kid'', PStr ''k1''), (''alg'', PStr ''HS256'')]"
  "get_unverified_header example_env ''rotated'' = Inr [(''kid'', PStr ''k9''), (''alg'', PStr ''RS256'')]"
  "get_unverified_header example_env ''forged'' = Inr rs256_k1"
  "get_unverified_header example_env ''garbage'' = Inl DecodeError"
  by (simp_all add: ex_defs2)

theorem header_rejected_before_signature_check_witness:
  "get_unverified_header example_env ''nokid'' = Inr [(''alg'', PStr ''RS256'')]
   \<and> \<not> truthy (dict_get [(''alg'', PStr ''RS256'')] ''kid'')
   \<and> get_jwks example_env example_world = (Inr example_jwks, example_world_fetched)
   \<and> validate_jwt example_env ''nokid'' example_world =
     (Inl (AuthenticationFailed
            [Lit (''Invalid token missing '' @ [CHR 0x27] @ ''kid'' @ [CHR 0x27] @ '' header'')]),
      example_world_fetched)
   \<and> validate_jwt (example_env\<lparr>decode := (\<lambda>t k i a opts. Inr alice_claims),
          from_jwk := (\<lambda>k. Inr (RSAPublicKey 3233 17))\<rparr>) ''nokid'' example_world =
       validate_jwt example_env ''nokid'' example_world
   \<and> get_unverified_header example_env ''hs256'' = Inr [(''kid'', PStr ''k1''), (''alg'', PStr ''HS256'')]
   \<and> \<not> py_eq (dict_get [(''kid'', PStr ''k1''), (''alg'', PStr ''HS256'')] ''alg'') (PStr ''RS256'')
   \<and> validate_jwt example_env ''hs256'' example_world =
     (Inl (AuthenticationFailed
            [Lit (''Unsupported '' @ [CHR 0x27] @ ''alg'' @ [CHR 0x27] @ '' header ''),
             Fmt (PStr ''HS256'')]),
      example_world_fetched)
   \<and> get_unverified_header example_env_down ''nokid'' = Inr [(''alg'', PStr ''RS256'')]
   \<and> get_jwks example_env_down example_world =
     (Inl (HTTPError 503), example_world\<lparr>http_requests := [''https://idp.example/pool/.well-known/jwks.json'']\<rparr>)
   \<and> validate_jwt example_env_down ''nokid'' example_world =
     (Inl (HTTPError 503), example_world\<lparr>http_requests := [''https://idp.example/pool/.well-known/jwks.json'']\<rparr>)"
proof -
  have hd: "get_unverified_header example_env_down ''nokid'' = Inr [(''alg'', PStr ''RS256'')]"
    by (simp add: ex_defs2)
  have gd: "get_jwks example_env_down example_world =
     (Inl (HTTPError 503), example_world\<lparr>http_requests := [''https://idp.example/pool/.well-known/jwks.json'']\<rparr>)"
    by (simp add: get_jwks_def cache_get_def Let_def ex_defs2)
  have k: "\<not> truthy (dict_get [(''alg'', PStr ''RS256'')] ''kid'')
      \<or> \<not> py_eq (dict_get [(''alg'', PStr ''RS256'')] ''alg'') (PStr ''RS256'')"
    by (simp add: dict_get_def)
  have a: "\<not> truthy (dict_get [(''kid'', PStr ''k1''), (''alg'', PStr ''HS256'')] ''kid'')
      \<or> \<not> py_eq (dict_get [(''kid'', PStr ''k1''), (''alg'', PStr ''HS256'')] ''alg'') (PStr ''RS256'')"
    by (simp add: dict_get_def)
  show ?thesis
    using header_example(1,2) get_jwks_example(1) validate_nokid validate_hs256 hd gd
      header_rejected_before_signature_check [OF header_example(1) k, of example_world]
      header_rejected_before_signature_check [OF header_example(2) a, of example_world]
      header_rejected_before_signature_check [OF hd k, of example_world]
    by (simp add: dict_get_def)
qed

text \<open>
  While the identity provider answers 503, a token without \<open>kid\<close> fails with the
  \<open>HTTPError\<close> of the key fetch, not with \<open>AuthenticationFailed\<close>.
\<close>

theorem key_store_error_comes_first:
  "get_unverified_header example_env_down ''nokid'' = Inr [(''alg'', PStr ''RS256'')]
   \<and> \<not> truthy (dict_get [(''alg'', PStr ''RS256'')] ''kid'')
   \<and> validate_jwt example_env_down ''nokid'' example_world =
     (Inl (HTTPError 503), example_world\<lparr>http_requests := [''https://idp.example/pool/.well-known/jwks.json'']\<rparr>)"
  by (simp add: validate_jwt_def get_jwks_def cache_get_def dict_get_def Let_def ex_defs2)

section \<open>A key identifier that is not in the key set\<close>

lemma get_public_key_unknown_kid:
  assumes "get_unverified_header env token = Inr header"
    and "truthy (dict_get header ''kid'')"
    and "py_eq (dict_get header ''alg'') (PStr ''RS256'')"
    and "py_getitem jwks ''keys'' = Inr keys"
    and "py_iter keys = Inr ks"
    and "keys_with_kid ks (dict_get header ''kid'') = Inr []"
  shows "get_public_key env token jwks s =
     (Inl (AuthenticationFailed [Lit ''Forbidden'']),
      s\<lparr>log := log s @ [''Header key id not present in passed jwks keys'']\<rparr>)"
  using assms by (simp add: get_public_key_def Let_def)

lemma get_jwks_memo_hit:
  "truthy (COGNITO_USER_POOL_JWKS s) \<Longrightarrow> get_jwks env s = (Inr (COGNITO_USER_POOL_JWKS s), s)"
  by (simp add: get_jwks_def)


text \<open>
  C7.  When the \<open>kid\<close> of a token is the \<open>kid\<close> of no key in the current key set,
  verification fails with \<open>AuthenticationFailed("Forbidden")\<close>, and the failure changes
  nothing of the key store: the kept key set, the shared cache and the requests sent
  upstream are as the accessor left them (only the log grows).  When the key set was
  already kept in the process they are as they were before the call.
\<close>

theorem unknown_kid_forbidden_without_refresh:
  assumes "get_jwks env s = (Inr jwks, s1)"
    and "get_unverified_header env token = Inr header"
    and "truthy (dict_get header ''kid'')"
    and "py_eq (dict_get header ''alg'') (PStr ''RS256'')"
    and "py_getitem jwks ''keys'' = Inr keys"
    and "py_iter keys = Inr ks"
    and "\<forall>k\<in>set ks. \<exists>kid. py_getitem k ''kid'' = Inr kid \<and> \<not> py_eq kid (dict_get header ''kid'')"
  shows "\<exists>s'. validate_jwt env token s = (Inl (AuthenticationFailed [Lit ''Forbidden'']), s')
       \<and> s' = s1\<lparr>log := log s1 @ [''Header key id not present in passed jwks keys'']\<rparr>
       \<and> COGNITO_USER_POOL_JWKS s' = COGNITO_USER_POOL_JWKS s1
       \<and> cache s' = cache s1 \<and> http_requests s' = http_requests s1
       \<and> (truthy (COGNITO_USER_POOL_JWKS s) \<longrightarrow>
            COGNITO_USER_POOL_JWKS s' = COGNITO_USER_POOL_JWKS s
            \<and> cache s' = cache s \<and> http_requests s' = http_requests s)"
proof -
  note k = keys_with_kid_none [OF assms(7)]
  note p = get_public_key_unknown_kid [OF assms(2-6) k, of s1]
  have v: "validate_jwt env token s = (Inl (AuthenticationFailed [Lit ''Forbidden'']),
      s1\<lparr>log := log s1 @ [''Header key id not present in passed jwks keys'']\<rparr>)"
    by (simp add: validate_jwt_def assms(1) p except_PyJWTError_def)
  have "truthy (COGNITO_USER_POOL_JWKS s) \<Longrightarrow> s1 = s"
    using assms(1) by (simp add: get_jwks_memo_hit)
  with v show ?thesis by auto
qed

lemma validate_rotated_fetched:
  "validate_jwt example_env ''rotated'' example_world_fetched =
     (Inl (AuthenticationFailed [Lit ''Forbidden'']),
      example_world_fetched\<lparr>log := [''Header key id not present in passed jwks keys'']\<rparr>)"
  by (simp add: validate_defs ex_defs2)

theorem unknown_kid_forbidden_without_refresh_witness:
  "get_jwks example_env example_world_fetched = (Inr example_jwks, example_world_fetched)
   \<and> get_unverified_header example_env ''rotated'' = Inr [(''kid'', PStr ''k9''), (''alg'', PStr ''RS256'')]
   \<and> truthy (dict_get [(''kid'', PStr ''k9''), (''alg'', PStr ''RS256'')] ''kid'')
   \<and> py_eq (dict_get [(''kid'', PStr ''k9''), (''alg'', PStr ''RS256'')] ''alg'') (PStr ''RS256'')
   \<and> py_getitem example_jwks ''keys'' = Inr (PList [PDict [(''kid'', PStr ''k1''), (''kty'', PStr ''RSA''),
        (''n'', PInt 3233), (''e'', PInt 17)]])
   \<and> py_iter (PList [PDict [(''kid'', PStr ''k1''), (''kty'', PStr ''RSA''), (''n'', PInt 3233),
        (''e'', PInt 17)]])
        = Inr [PDict [(''kid'', PStr ''k1''), (''kty'', PStr ''RSA''), (''n'', PInt 3233), (''e'', PInt 17)]]
   \<and> py_getitem (PDict [(''kid'', PStr ''k1''), (''kty'', PStr ''RSA''), (''n'', PInt 3233),
        (''e'', PInt 17)]) ''kid'' = Inr (PStr ''k1'')
   \<and> \<not> py_eq (PStr ''k1'') (dict_get [(''kid'', PStr ''k9''), (''alg'', PStr ''RS256'')] ''kid'')
   \<and> truthy (COGNITO_USER_POOL_JWKS example_world_fetched)
   \<and> validate_jwt example_env ''rotated'' example_world_fetched =
        (Inl (AuthenticationFailed [Lit ''Forbidden'']),
         example_world_fetched\<lparr>log := [''Header key id not present in passed jwks keys'']\<rparr>)
   \<and> http_requests (example_world_fetched\<lparr>log := [''Header key id not present in passed jwks keys'']\<rparr>)
        = http_requests example_world_fetched"
proof -
  let ?h = "[(''kid'', PStr ''k9''), (''alg'', PStr ''RS256'')]"
  let ?k = "PDict [(''kid'', PStr ''k1''), (''kty'', PStr ''RSA''), (''n'', PInt 3233), (''e'', PInt 17)]"
  have h3: "truthy (dict_get ?h ''kid'')" and h4: "py_eq (dict_get ?h ''alg'') (PStr ''RS256'')"
    by (simp_all add: dict_get_def)
  have h5: "py_getitem example_jwks ''keys'' = Inr (PList [?k])"
    by (simp add: example_jwks_def)
  have h6: "py_iter (PList [?k]) = Inr [?k]" by simp
  have h7: "\<forall>k\<in>set [?k]. \<exists>kid. py_getitem k ''kid'' = Inr kid \<and> \<not> py_eq kid (dict_get ?h ''kid'')"
    by (simp add: dict_get_def)
  have m: "truthy (COGNITO_USER_POOL_JWKS example_world_fetched)"
    by (simp add: ex_defs2)
  show ?thesis
    using get_jwks_example(2) header_example(3) h3 h4 h5 h7 m validate_rotated_fetched
      unknown_kid_forbidden_without_refresh
        [OF get_jwks_example(2) header_example(3) h3 h4 h5 h6 h7]
    by simp
qed

section \<open>The key store accessor\<close>






text \<open>
  The emptiness tested is that of the document: a document whose list of keys is empty
  is a truthy value.
\<close>

lemma get_jwks_no_keys:
  "get_jwks (example_env\<lparr>requests_get :=
       (\<lambda>n url. Some \<lparr>status_code = 200, json = Some (PDict [(''keys'', PList [])])\<rparr>)\<rparr>)
     example_world =
   (Inr (PDict [(''keys'', PList [])]),
    example_world\<lparr>COGNITO_USER_POOL_JWKS := PDict [(''keys'', PList [])],
      cache := [''cognito_user_pool_jwks'' \<mapsto> PDict [(''keys'', PList [])]],
      http_requests := [''https://idp.example/pool/.well-known/jwks.json'']\<rparr>)"
  by (simp add: get_jwks_def cache_get_def Let_def ex_defs2)



section \<open>The errors of the token verifier\<close>

lemma get_public_key_from_jwk_error:
  assumes "get_unverified_header env token = Inr header"
    and "truthy (dict_get header ''kid'')"
    and "py_eq (dict_get header ''alg'') (PStr ''RS256'')"
    and "py_getitem jwks ''keys'' = Inr keys"
    and "py_iter keys = Inr ks"
    and "keys_with_kid ks (dict_get header ''kid'') = Inr (key # rest)"
    and "from_jwk env key = Inl e"
  shows "get_public_key env token jwks s = (Inl e, s)"
  using assms by (simp add: get_public_key_def Let_def)

text \<open>
  C3 (as amended).  With a key set at hand, every failure that PyJWT raises as a
  \<open>PyJWTError\<close> reaches the caller as the one generic error
  \<open>AuthenticationFailed("Invalid token")\<close>: a token that does not parse, an
  \<open>InvalidKeyError\<close> or other \<open>PyJWTError\<close> of \<open>from_jwk\<close>, and whatever
  \<open>decode\<close> raises (signature mismatch, expiry, issuer mismatch, any decode error).
  No \<open>PyJWTError\<close> escapes.  What is not a \<open>PyJWTError\<close> is not made generic.
  The three checks that \<open>_get_public_key\<close> makes itself are reported with messages of
  their own: a missing \<open>kid\<close>, an unsupported \<open>alg\<close> (with the value of
  \<open>alg\<close>), and a \<open>kid\<close> that is not in the key set (\<open>Forbidden\<close>).  An
  exception of another class that \<open>from_jwk\<close> raises for the selected key
  (\<open>ValueError\<close>, \<open>TypeError\<close>) reaches the caller as it is, with nothing logged.
\<close>

theorem verification_errors:
  assumes "get_jwks env s = (Inr jwks, s1)"
  shows "(\<forall>x. get_unverified_header env token = Inl x \<longrightarrow>
            fst (validate_jwt env token s) = Inl (AuthenticationFailed [Lit ''Invalid token'']))
       \<and> (\<forall>x s2. get_public_key env token jwks s1 = (Inl (PyJWTError x), s2) \<longrightarrow>
            fst (validate_jwt env token s) = Inl (AuthenticationFailed [Lit ''Invalid token'']))
       \<and> (\<forall>key s2 x. get_public_key env token jwks s1 = (Inr key, s2)
            \<and> decode env token key (COGNITO_USER_POOL_URL (settings env)) [''RS256'']
                 JWT_VERIFY_OPTS = Inl x \<longrightarrow>
            fst (validate_jwt env token s) = Inl (AuthenticationFailed [Lit ''Invalid token'']))
       \<and> (\<forall>x. fst (validate_jwt env token s) \<noteq> Inl (PyJWTError x))
       \<and> (\<forall>header. get_unverified_header env token = Inr header
            \<and> \<not> truthy (dict_get header ''kid'') \<longrightarrow>
            fst (validate_jwt env token s) = Inl (AuthenticationFailed
              [Lit (''Invalid token missing '' @ [CHR 0x27] @ ''kid'' @ [CHR 0x27] @ '' header'')]))
       \<and> (\<forall>header. get_unverified_header env token = Inr header
            \<and> truthy (dict_get header ''kid'')
            \<and> \<not> py_eq (dict_get header ''alg'') (PStr ''RS256'') \<longrightarrow>
            fst (validate_jwt env token s) = Inl (AuthenticationFailed
              [Lit (''Unsupported '' @ [CHR 0x27] @ ''alg'' @ [CHR 0x27] @ '' header ''),
               Fmt (dict_get header ''alg'')]))
       \<and> (\<forall>header keys ks. get_unverified_header env token = Inr header
            \<and> truthy (dict_get header ''kid'')
            \<and> py_eq (dict_get header ''alg'') (PStr ''RS256'')
            \<and> py_getitem jwks ''keys'' = Inr keys \<and> py_iter keys = Inr ks
            \<and> keys_with_kid ks (dict_get header ''kid'') = Inr [] \<longrightarrow>
            fst (validate_jwt env token s) = Inl (AuthenticationFailed [Lit ''Forbidden'']))
       \<and> (\<forall>header keys ks key rest x. get_unverified_header env token = Inr header
            \<and> truthy (dict_get header ''kid'')
            \<and> py_eq (dict_get header ''alg'') (PStr ''RS256'')
            \<and> py_getitem jwks ''keys'' = Inr keys \<and> py_iter keys = Inr ks
            \<and> keys_with_kid ks (dict_get header ''kid'') = Inr (key # rest)
            \<and> from_jwk env key = Inl (PyJWTError x) \<longrightarrow>
            validate_jwt env token s = (Inl (AuthenticationFailed [Lit ''Invalid token'']),
              s1\<lparr>log := log s1 @ [''Error decoding JWT token'']\<rparr>))
       \<and> (\<forall>header keys ks key rest e. get_unverified_header env token = Inr header
            \<and> truthy (dict_get header ''kid'')
            \<and> py_eq (dict_get header ''alg'') (PStr ''RS256'')
            \<and> py_getitem jwks ''keys'' = Inr keys \<and> py_iter keys = Inr ks
            \<and> keys_with_kid ks (dict_get header ''kid'') = Inr (key # rest)
            \<and> from_jwk env key = Inl e \<and> (\<forall>x. e \<noteq> PyJWTError x) \<longrightarrow>
            validate_jwt env token s = (Inl e, s1))"
proof (intro conjI allI impI)
  fix x assume "get_unverified_header env token = Inl x"
  then have "get_public_key env token jwks s1 = (Inl (PyJWTError x), s1)"
    by (simp add: get_public_key_def)
  then show "fst (validate_jwt env token s) = Inl (AuthenticationFailed [Lit ''Invalid token''])"
    by (simp add: validate_jwt_def assms except_PyJWTError_def)
next
  fix x s2 assume "get_public_key env token jwks s1 = (Inl (PyJWTError x), s2)"
  then show "fst (validate_jwt env token s) = Inl (AuthenticationFailed [Lit ''Invalid token''])"
    by (simp add: validate_jwt_def assms except_PyJWTError_def)
next
  fix key s2 x
  assume "get_public_key env token jwks s1 = (Inr key, s2)
      \<and> decode env token key (COGNITO_USER_POOL_URL (settings env)) [''RS256'']
           JWT_VERIFY_OPTS = Inl x"
  then show "fst (validate_jwt env token s) = Inl (AuthenticationFailed [Lit ''Invalid token''])"
    by (simp add: validate_jwt_def assms except_PyJWTError_def)
next
  fix x
  obtain r2 s2 where p: "get_public_key env token jwks s1 = (r2, s2)"
    by (cases "get_public_key env token jwks s1")
  show "fst (validate_jwt env token s) \<noteq> Inl (PyJWTError x)"
    by (auto simp: validate_jwt_def assms p except_PyJWTError_def split: sum.splits error.splits)
next
  fix header
  assume "get_unverified_header env token = Inr header \<and> \<not> truthy (dict_get header ''kid'')"
  then show "fst (validate_jwt env token s) = Inl (AuthenticationFailed
      [Lit (''Invalid token missing '' @ [CHR 0x27] @ ''kid'' @ [CHR 0x27] @ '' header'')])"
    by (simp add: validate_jwt_def assms get_public_key_def except_PyJWTError_def)
next
  fix header
  assume "get_unverified_header env token = Inr header \<and> truthy (dict_get header ''kid'')
      \<and> \<not> py_eq (dict_get header ''alg'') (PStr ''RS256'')"
  then show "fst (validate_jwt env token s) = Inl (AuthenticationFailed
      [Lit (''Unsupported '' @ [CHR 0x27] @ ''alg'' @ [CHR 0x27] @ '' header ''),
       Fmt (dict_get header ''alg'')])"
    by (simp add: validate_jwt_def assms get_public_key_def except_PyJWTError_def Let_def)
next
  fix header keys ks
  assume "get_unverified_header env token = Inr header \<and> truthy (dict_get header ''kid'')
      \<and> py_eq (dict_get header ''alg'') (PStr ''RS256'')
      \<and> py_getitem jwks ''keys'' = Inr keys \<and> py_iter keys = Inr ks
      \<and> keys_with_kid ks (dict_get header ''kid'') = Inr []"
  then have "get_public_key env token jwks s1 =
     (Inl (AuthenticationFailed [Lit ''Forbidden'']),
      s1\<lparr>log := log s1 @ [''Header key id not present in passed jwks keys'']\<rparr>)"
    by (simp add: get_public_key_unknown_kid)
  then show "fst (validate_jwt env token s) = Inl (AuthenticationFailed [Lit ''Forbidden''])"
    by (simp add: validate_jwt_def assms except_PyJWTError_def)
next
  fix header keys ks key rest x
  assume "get_unverified_header env token = Inr header \<and> truthy (dict_get header ''kid'')
      \<and> py_eq (dict_get header ''alg'') (PStr ''RS256'')
      \<and> py_getitem jwks ''keys'' = Inr keys \<and> py_iter keys = Inr ks
      \<and> keys_with_kid ks (dict_get header ''kid'') = Inr (key # rest)
      \<and> from_jwk env key = Inl (PyJWTError x)"
  then have "get_public_key env token jwks s1 = (Inl (PyJWTError x), s1)"
    by (simp add: get_public_key_from_jwk_error)
  then show "validate_jwt env token s = (Inl (AuthenticationFailed [Lit ''Invalid token'']),
      s1\<lparr>log := log s1 @ [''Error decoding JWT token'']\<rparr>)"
    by (simp add: validate_jwt_def assms except_PyJWTError_def)
next
  fix header keys ks key rest e
  assume h: "get_unverified_header env token = Inr header \<and> truthy (dict_get header ''kid'')
      \<and> py_eq (dict_get header ''alg'') (PStr ''RS256'')
      \<and> py_getitem jwks ''keys'' = Inr keys \<and> py_iter keys = Inr ks
      \<and> keys_with_kid ks (dict_get header ''kid'') = Inr (key # rest)
      \<and> from_jwk env key = Inl e \<and> (\<forall>x. e \<noteq> PyJWTError x)"
  then have "get_public_key env token jwks s1 = (Inl e, s1)"
    by (simp add: get_public_key_from_jwk_error)
  moreover from h have "except_PyJWTError e s1 = (Inl e, s1)"
    by (cases e) (simp_all add: except_PyJWTError_def)
  ultimately show "validate_jwt env token s = (Inl e, s1)"
    by (simp add: validate_jwt_def assms)
qed

lemma get_public_key_forged:
  "get_public_key example_env ''forged'' example_jwks example_world_fetched =
     (Inr (RSAPublicKey 3233 17), example_world_fetched)"
  by (simp add: get_public_key_def dict_get_def Let_def ex_defs2)

lemma decode_forged:
  "decode example_env ''forged'' (RSAPublicKey 3233 17)
     (COGNITO_USER_POOL_URL (settings example_env)) [''RS256''] JWT_VERIFY_OPTS
   = Inl InvalidSignatureError"
  by (simp add: ex_defs2)

theorem verification_errors_witness:
  "get_jwks example_env example_world = (Inr example_jwks, example_world_fetched)
   \<and> get_unverified_header example_env ''garbage'' = Inl DecodeError
   \<and> fst (validate_jwt example_env ''garbage'' example_world)
        = Inl (AuthenticationFailed [Lit ''Invalid token''])
   \<and> get_public_key example_env ''forged'' example_jwks example_world_fetched =
        (Inr (RSAPublicKey 3233 17), example_world_fetched)
   \<and> decode example_env ''forged'' (RSAPublicKey 3233 17)
        (COGNITO_USER_POOL_URL (settings example_env)) [''RS256''] JWT_VERIFY_OPTS
        = Inl InvalidSignatureError
   \<and> fst (validate_jwt example_env ''forged'' example_world)
        = Inl (AuthenticationFailed [Lit ''Invalid token''])
   \<and> get_unverified_header example_env ''nokid'' = Inr [(''alg'', PStr ''RS256'')]
   \<and> \<not> truthy (dict_get [(''alg'', PStr ''RS256'')] ''kid'')
   \<and> fst (validate_jwt example_env ''nokid'' example_world) = Inl (AuthenticationFailed
        [Lit (''Invalid token missing '' @ [CHR 0x27] @ ''kid'' @ [CHR 0x27] @ '' header'')])
   \<and> get_unverified_header example_env ''hs256'' = Inr [(''kid'', PStr ''k1''), (''alg'', PStr ''HS256'')]
   \<and> fst (validate_jwt example_env ''hs256'' example_world) = Inl (AuthenticationFailed
        [Lit (''Unsupported '' @ [CHR 0x27] @ ''alg'' @ [CHR 0x27] @ '' header ''),
         Fmt (PStr ''HS256'')])
   \<and> get_unverified_header example_env ''rotated'' = Inr [(''kid'', PStr ''k9''), (''alg'', PStr ''RS256'')]
   \<and> keys_with_kid [PDict [(''kid'', PStr ''k1''), (''kty'', PStr ''RSA''), (''n'', PInt 3233),
        (''e'', PInt 17)]] (PStr ''k9'') = Inr []
   \<and> fst (validate_jwt example_env ''rotated'' example_world)
        = Inl (AuthenticationFailed [Lit ''Forbidden''])
   \<and> get_jwks (example_env_bad_key ValueError) example_world
        = (Inr example_jwks, example_world_fetched)
   \<and> get_unverified_header (example_env_bad_key ValueError) ''alice'' = Inr rs256_k1
   \<and> keys_with_kid [PDict [(''kid'', PStr ''k1''), (''kty'', PStr ''RSA''), (''n'', PInt 3233), (''e'', PInt 17)]] (PStr ''k1'') = Inr [PDict [(''kid'', PStr ''k1''), (''kty'', PStr ''RSA''), (''n'', PInt 3233), (''e'', PInt 17)]]
   \<and> from_jwk (example_env_bad_key ValueError) (PDict [(''kid'', PStr ''k1''), (''kty'', PStr ''RSA''), (''n'', PInt 3233), (''e'', PInt 17)]) = Inl ValueError
   \<and> validate_jwt (example_env_bad_key ValueError) ''alice'' example_world
        = (Inl ValueError, example_world_fetched)
   \<and> from_jwk (example_env_bad_key (PyJWTError InvalidKeyError)) (PDict [(''kid'', PStr ''k1''), (''kty'', PStr ''RSA''), (''n'', PInt 3233), (''e'', PInt 17)])
        = Inl (PyJWTError InvalidKeyError)
   \<and> validate_jwt (example_env_bad_key (PyJWTError InvalidKeyError)) ''alice'' example_world
        = (Inl (AuthenticationFailed [Lit ''Invalid token'']),
           example_world_fetched\<lparr>log := [''Error decoding JWT token'']\<rparr>)"
proof -
  have g: "get_jwks (example_env_bad_key e) example_world = (Inr example_jwks, example_world_fetched)"
    for e
    by (simp add: get_jwks_def cache_get_def Let_def ex_defs2)
  have h: "get_unverified_header (example_env_bad_key e) ''alice'' = Inr rs256_k1" for e
    by (simp add: ex_defs2)
  have f: "from_jwk (example_env_bad_key e) k = Inl e" for e k
    by (simp add: example_env_bad_key_def)
  have k: "keys_with_kid [PDict [(''kid'', PStr ''k1''), (''kty'', PStr ''RSA''), (''n'', PInt 3233), (''e'', PInt 17)]] (PStr ''k1'') = Inr [PDict [(''kid'', PStr ''k1''), (''kty'', PStr ''RSA''), (''n'', PInt 3233), (''e'', PInt 17)]]"
    by simp
  have v: "validate_jwt (example_env_bad_key ValueError) ''alice'' example_world
        = (Inl ValueError, example_world_fetched)"
    using verification_errors [OF g [of ValueError], where token = "''alice''"] h f k
    by (simp add: dict_get_def example_jwks_def rs256_k1_def)
  have i: "validate_jwt (example_env_bad_key (PyJWTError InvalidKeyError)) ''alice'' example_world
        = (Inl (AuthenticationFailed [Lit ''Invalid token'']),
           example_world_fetched\<lparr>log := [''Error decoding JWT token'']\<rparr>)"
    using verification_errors [OF g [of "PyJWTError InvalidKeyError"], where token = "''alice''"]
      h f k
    by (simp add: dict_get_def example_jwks_def rs256_k1_def example_world_fetched_def
          example_world_def)
  show ?thesis
    using get_jwks_example(1) header_example get_public_key_forged decode_forged g h f k v i
      verification_errors [OF get_jwks_example(1), of "''garbage''"]
      verification_errors [OF get_jwks_example(1), of "''forged''"]
      verification_errors [OF get_jwks_example(1), of "''nokid''"]
      verification_errors [OF get_jwks_example(1), of "''hs256''"]
      verification_errors [OF get_jwks_example(1), of "''rotated''"]
    by (simp add: dict_get_def example_jwks_def rs256_k1_def)
qed

text \<open>
  A token without \<open>kid\<close>, a token with a forged signature and a token with an unknown
  \<open>kid\<close> fail with three different messages.
\<close>

theorem verification_errors_differ:
  "fst (validate_jwt example_env ''nokid'' example_world) = Inl (AuthenticationFailed
     [Lit (''Invalid token missing '' @ [CHR 0x27] @ ''kid'' @ [CHR 0x27] @ '' header'')])
   \<and> fst (validate_jwt example_env ''forged'' example_world)
        = Inl (AuthenticationFailed [Lit ''Invalid token''])
   \<and> fst (validate_jwt example_env ''rotated'' example_world)
        = Inl (AuthenticationFailed [Lit ''Forbidden''])
   \<and> fst (validate_jwt example_env ''nokid'' example_world)
        \<noteq> fst (validate_jwt example_env ''forged'' example_world)"
  using validate_nokid validate_forged validate_rotated by simp

end
